theory Spec2Isabelle
  imports Complex_Main
begin

section \<open>JavaScript strings and numbers\<close>

text \<open>
  A JavaScript string is modelled by \<^typ>\<open>string\<close>: the list of its code units, each of
  them below 256. The functions below are the built-ins the services call, restricted to
  such strings.
\<close>

definition dquote :: char where
  "dquote = CHR 0x22"

text \<open>The class \<^verbatim>\<open>\d\<close> of a regular expression with the flag \<^verbatim>\<open>u\<close>: the digits 0 to 9.\<close>

definition isDigit :: "char \<Rightarrow> bool" where
  "isDigit c = (48 \<le> (of_char c :: nat) \<and> (of_char c :: nat) \<le> 57)"

text \<open>
  \<^verbatim>\<open>String.prototype.toLowerCase\<close> on code units below 256: the letters A to Z and the
  upper-case letters of Latin-1 (0xC0 to 0xDE without the multiplication sign 0xD7) move
  up by 32, every other code unit stays.
\<close>

definition char_toLowerCase :: "char \<Rightarrow> char" where
  "char_toLowerCase c =
     (let n = (of_char c :: nat)
      in if (65 \<le> n \<and> n \<le> 90) \<or> (192 \<le> n \<and> n \<le> 222 \<and> n \<noteq> 215)
         then char_of (n + 32) else c)"

definition toLowerCase :: "string \<Rightarrow> string" where
  "toLowerCase s = map char_toLowerCase s"

text \<open>
  \<^verbatim>\<open>String.prototype.slice(start, end)\<close>: a negative index counts from the end, and both
  indices are clamped to the string.
\<close>

definition slice :: "string \<Rightarrow> int \<Rightarrow> int \<Rightarrow> string" where
  "slice s start end =
     (let len = int (length s);
          from = (if start < 0 then max (len + start) 0 else min start len);
          to = (if end < 0 then max (len + end) 0 else min end len)
      in take (nat (to - from)) (drop (nat from) s))"

text \<open>White space that \<^verbatim>\<open>parseInt\<close> skips, among the code units below 256.\<close>

definition isWhiteSpace :: "char \<Rightarrow> bool" where
  "isWhiteSpace c = ((of_char c :: nat) \<in> {9, 10, 11, 12, 13, 32, 160})"

definition digitValue :: "char \<Rightarrow> nat" where
  "digitValue c = of_char c - 48"

definition decimalValue :: "string \<Rightarrow> nat" where
  "decimalValue ds = foldl (\<lambda>acc c. acc * 10 + digitValue c) 0 ds"

text \<open>
  \<^verbatim>\<open>Number.parseInt(str, 10)\<close>: leading white space is skipped, one sign is read, and the
  longest run of decimal digits that follows is the number; \<open>None\<close> is \<^verbatim>\<open>NaN\<close>, the result
  when there is no digit. The value is the exact integer (JavaScript rounds beyond
  \<open>2^53\<close>; the only call site passes at most three digits).
\<close>

definition parseInt_radix10 :: "string \<Rightarrow> int option" where
  "parseInt_radix10 str =
     (let s = dropWhile isWhiteSpace str;
          sign = (case s of c # _ \<Rightarrow> if c = CHR ''-'' then - 1 else 1 | [] \<Rightarrow> (1::int));
          s' = (case s of c # r \<Rightarrow> if c = CHR ''-'' \<or> c = CHR ''+'' then r else s | [] \<Rightarrow> []);
          z = takeWhile isDigit s'
      in if z = [] then None else Some (sign * int (decimalValue z)))"

section \<open>Data model\<close>

text \<open>
  The entities of the Prisma client. The schema is not among the sources: the fields are
  the ones the DTOs and the services read and write. A column that may be \<^verbatim>\<open>null\<close> is an
  \<open>option\<close>; \<open>ausstattungen\<close> is \<open>None\<close> in a payload loaded without that relation.
\<close>

record fahrzeugschein =
  identifikationsNummer :: string
  erstzulassung :: "string option"
  gueltigBis :: string

record ausstattung =
  bezeichnung :: string
  beschreibung :: string
  ausstattung_preis :: rat

record auto =
  auto_id :: int
  version :: int
  fin :: string
  rating :: int
  art :: "string option"
  preis :: rat
  rabatt :: rat
  verfuegbar :: bool
  baujahr :: "string option"
  homepage :: "string option"
  schlagwoerter :: "string list option"
  fahrzeugschein :: "fahrzeugschein option"
  ausstattungen :: "ausstattung list option"

record auto_file =
  file_id :: int
  filename :: string
  data :: "nat list"
  mimetype :: "string option"
  autoId :: int

text \<open>
  The database: the rows of both tables in the order the store returns them, and the next
  values of the two id sequences.
\<close>

record db =
  autos :: "auto list"
  autoFiles :: "auto_file list"
  next_auto_id :: int
  next_file_id :: int

subsection \<open>Errors\<close>

text \<open>
  The message of a \<^verbatim>\<open>NotFoundException\<close> is kept as the template the code fills in, with
  the values it carries.
\<close>

datatype not_found =
    KeinAutoMitId "int option"
  | UngueltigeSuchparameter
  | KeineAutosGefunden "(string \<times> string) list" nat
  | UngueltigeSeite nat
  | KeineDateiFuerAuto int

datatype prisma_error = RecordNotFound | MissingField | ForeignKeyViolation

datatype error =
    NotFoundException not_found
  | FinExistsException string
  | VersionInvalidException string
  | VersionOutdatedException int
  | PrismaError prisma_error

section \<open>Read service: lookup by id\<close>

definition findUnique :: "db \<Rightarrow> int \<Rightarrow> auto option" where
  "findUnique d i = find (\<lambda>a. auto_id a = i) (autos d)"

text \<open>The two \<^verbatim>\<open>include\<close> settings: the equipment is loaded only on demand.\<close>

definition withInclude :: "bool \<Rightarrow> auto \<Rightarrow> auto" where
  "withInclude mitAusstattungen a =
     (if mitAusstattungen then a else a\<lparr>ausstattungen := None\<rparr>)"

text \<open>\<^verbatim>\<open>auto.schlagwoerter ??= []\<close>\<close>

definition defaultSchlagwoerter :: "auto \<Rightarrow> auto" where
  "defaultSchlagwoerter a =
     (case schlagwoerter a of None \<Rightarrow> a\<lparr>schlagwoerter := Some []\<rparr> | Some _ \<Rightarrow> a)"

definition findById :: "db \<Rightarrow> int \<Rightarrow> bool \<Rightarrow> error + auto" where
  "findById d i mitAusstattungen =
     (case findUnique d i of
        None \<Rightarrow> Inl (NotFoundException (KeinAutoMitId (Some i)))
      | Some a \<Rightarrow> Inr (defaultSchlagwoerter (withInclude mitAusstattungen a)))"

section \<open>Write service: update with optimistic synchronisation\<close>

text \<open>
  \<^verbatim>\<open>VERSION_PATTERN = /^"\d{1,3}"/u\<close>, used with \<^verbatim>\<open>test\<close>: the string starts with a double
  quote, \<open>k\<close> digits for some \<open>k\<close> from 1 to 3, and a double quote. The pattern has no
  anchor at the end.
\<close>

definition VERSION_PATTERN_test :: "string \<Rightarrow> bool" where
  "VERSION_PATTERN_test s =
     list_ex (\<lambda>k. k + 2 \<le> length s \<and> s ! 0 = dquote \<and>
        list_all isDigit (take k (drop 1 s)) \<and> s ! (k + 1) = dquote) [1, 2, 3]"

text \<open>
  The specification's wording of a well-formed version: exactly a decimal number of one
  to three digits between double quotes, and nothing else.
\<close>

definition quotedDecimal :: "string \<Rightarrow> bool" where
  "quotedDecimal s =
     (2 \<le> length s \<and> hd s = dquote \<and> last s = dquote \<and>
      length s - 2 \<in> {1, 2, 3} \<and> list_all isDigit (butlast (tl s)))"

text \<open>
  The data of \<^verbatim>\<open>tx.auto.update\<close>: a field that is \<open>None\<close> is left as it is. The version is
  either set or incremented.
\<close>

datatype int_update = SetTo int | Increment int

record auto_update =
  u_version :: "int_update option"
  u_fin :: "string option"
  u_rating :: "int option"
  u_art :: "string option option"
  u_preis :: "rat option"
  u_rabatt :: "rat option"
  u_verfuegbar :: "bool option"
  u_baujahr :: "string option option"
  u_homepage :: "string option option"
  u_schlagwoerter :: "string list option"

definition orElse :: "'a option \<Rightarrow> 'a \<Rightarrow> 'a" where
  "orElse v d = (case v of None \<Rightarrow> d | Some x \<Rightarrow> x)"

definition applyUpdate :: "auto_update \<Rightarrow> auto \<Rightarrow> auto" where
  "applyUpdate u a =
     a\<lparr>version := (case u_version u of
                     None \<Rightarrow> version a
                   | Some (SetTo v) \<Rightarrow> v
                   | Some (Increment k) \<Rightarrow> version a + k),
       fin := orElse (u_fin u) (fin a),
       rating := orElse (u_rating u) (rating a),
       art := orElse (u_art u) (art a),
       preis := orElse (u_preis u) (preis a),
       rabatt := orElse (u_rabatt u) (rabatt a),
       verfuegbar := orElse (u_verfuegbar u) (verfuegbar a),
       baujahr := orElse (u_baujahr u) (baujahr a),
       homepage := orElse (u_homepage u) (homepage a),
       schlagwoerter := (case u_schlagwoerter u of
                           None \<Rightarrow> schlagwoerter a
                         | Some ws \<Rightarrow> Some ws)\<rparr>"

text \<open>
  \<^verbatim>\<open>tx.auto.update({ data, where: { id } })\<close>: the row with that id is rewritten and
  returned; the client raises when there is none.
\<close>

definition prisma_auto_update :: "db \<Rightarrow> int \<Rightarrow> auto_update \<Rightarrow> prisma_error + (auto \<times> db)" where
  "prisma_auto_update d i u =
     (case findUnique d i of
        None \<Rightarrow> Inl RecordNotFound
      | Some a \<Rightarrow>
          Inr (applyUpdate u a,
               d\<lparr>autos := map (\<lambda>x. if auto_id x = i then applyUpdate u x else x) (autos d)\<rparr>))"

text \<open>
  \<^verbatim>\<open>#validateUpdate\<close>. A comparison with \<^verbatim>\<open>NaN\<close> is false, so a version that did not
  parse would pass the last check.
\<close>

definition validateUpdate :: "db \<Rightarrow> int \<Rightarrow> string \<Rightarrow> error + unit" where
  "validateUpdate d i versionStr =
     (if \<not> VERSION_PATTERN_test versionStr then Inl (VersionInvalidException versionStr)
      else
        let version' = parseInt_radix10 (slice versionStr 1 (- 1))
        in case findById d i False of
             Inl e \<Rightarrow> Inl e
           | Inr autoDb \<Rightarrow>
               (case version' of
                  None \<Rightarrow> Inr ()
                | Some v \<Rightarrow>
                    if v < version autoDb then Inl (VersionOutdatedException v)
                    else Inr ()))"

text \<open>
  \<^verbatim>\<open>update({ id, auto, version })\<close>: the result and the database afterwards. An error
  leaves the database as it was.
\<close>

definition update :: "db \<Rightarrow> int option \<Rightarrow> auto_update \<Rightarrow> string \<Rightarrow> (error + int) \<times> db" where
  "update d id' auto' versionStr =
     (case id' of
        None \<Rightarrow> (Inl (NotFoundException (KeinAutoMitId None)), d)
      | Some i \<Rightarrow>
          (case validateUpdate d i versionStr of
             Inl e \<Rightarrow> (Inl e, d)
           | Inr _ \<Rightarrow>
               (case prisma_auto_update d i (auto'\<lparr>u_version := Some (Increment 1)\<rparr>) of
                  Inl e \<Rightarrow> (Inl (PrismaError e), d)
                | Inr (autoUpdated, d') \<Rightarrow> (Inr (version autoUpdated), d'))))"

section \<open>Write service: create\<close>

text \<open>
  The input of \<^verbatim>\<open>tx.auto.create\<close>, with the nested \<^verbatim>\<open>create\<close> of the registration and of
  the equipment. \<^verbatim>\<open>#validateCreate\<close> tests the FIN against \<^verbatim>\<open>undefined\<close>, so it is an
  \<open>option\<close> here.
\<close>

record auto_create =
  c_version :: int
  c_fin :: "string option"
  c_rating :: int
  c_art :: "string option"
  c_preis :: rat
  c_rabatt :: rat
  c_verfuegbar :: bool
  c_baujahr :: "string option"
  c_homepage :: "string option"
  c_schlagwoerter :: "string list option"
  c_fahrzeugschein :: fahrzeugschein
  c_ausstattungen :: "ausstattung list"

text \<open>\<^verbatim>\<open>prisma.auto.count({ where: { fin } })\<close>\<close>

definition prisma_auto_count_fin :: "db \<Rightarrow> string \<Rightarrow> nat" where
  "prisma_auto_count_fin d f = length (filter (\<lambda>a. fin a = f) (autos d))"

text \<open>
  \<^verbatim>\<open>tx.auto.create({ data, include })\<close>: the row gets the next id of the sequence and is
  returned with both relations. The store is modelled without the constraints of the
  schema, except that a row needs its FIN.
\<close>

definition prisma_auto_create :: "db \<Rightarrow> auto_create \<Rightarrow> prisma_error + (auto \<times> db)" where
  "prisma_auto_create d c =
     (case c_fin c of
        None \<Rightarrow> Inl MissingField
      | Some f \<Rightarrow>
          let a = \<lparr>auto_id = next_auto_id d, version = c_version c, fin = f,
                   rating = c_rating c, art = c_art c, preis = c_preis c,
                   rabatt = c_rabatt c, verfuegbar = c_verfuegbar c,
                   baujahr = c_baujahr c, homepage = c_homepage c,
                   schlagwoerter = c_schlagwoerter c,
                   fahrzeugschein = Some (c_fahrzeugschein c),
                   ausstattungen = Some (c_ausstattungen c)\<rparr>
          in Inr (a, d\<lparr>autos := autos d @ [a], next_auto_id := next_auto_id d + 1\<rparr>))"

definition validateCreate :: "db \<Rightarrow> auto_create \<Rightarrow> error + unit" where
  "validateCreate d c =
     (case c_fin c of
        None \<Rightarrow> Inr ()
      | Some f \<Rightarrow>
          let anzahl = prisma_auto_count_fin d f
          in if anzahl > 0 then Inl (FinExistsException f) else Inr ())"

definition create :: "db \<Rightarrow> auto_create \<Rightarrow> (error + int) \<times> db" where
  "create d auto' =
     (case validateCreate d auto' of
        Inl e \<Rightarrow> (Inl e, d)
      | Inr _ \<Rightarrow>
          (case prisma_auto_create d auto' of
             Inl e \<Rightarrow> (Inl (PrismaError e), d)
           | Inr (autoDb, d') \<Rightarrow> (Inr (auto_id autoDb), d')))"

section \<open>Write service: attaching a file\<close>

text \<open>
  A value of the client at run time: \<^verbatim>\<open>null\<close>, a row, or the promise of a value. A call of
  the client returns a promise; \<^verbatim>\<open>await\<close> gives what it resolves to. Only \<^verbatim>\<open>null\<close> itself
  is strictly equal to \<^verbatim>\<open>null\<close>.
\<close>

datatype 'a js_value = Null | Row 'a | PromiseOf "'a js_value"

fun strictEqualsNull :: "'a js_value \<Rightarrow> bool" where
  "strictEqualsNull Null = True"
| "strictEqualsNull (Row _) = False"
| "strictEqualsNull (PromiseOf _) = False"

definition tx_auto_findUnique :: "db \<Rightarrow> int \<Rightarrow> auto js_value" where
  "tx_auto_findUnique d i =
     PromiseOf (case findUnique d i of None \<Rightarrow> Null | Some a \<Rightarrow> Row a)"

text \<open>
  A \<^verbatim>\<open>Uint8Array\<close> is a view of a buffer. The file type is read from the bytes of the view;
  \<^verbatim>\<open>data.buffer.slice(0)\<close> copies the whole buffer under it.
\<close>

record uint8array =
  buffer :: "nat list"
  byteOffset :: nat
  byteLength :: nat

definition viewBytes :: "uint8array \<Rightarrow> nat list" where
  "viewBytes v = take (byteLength v) (drop (byteOffset v) (buffer v))"

text \<open>
  \<^verbatim>\<open>addFile\<close>. The first parameter says whether the store enforces the reference from a
  file to its vehicle (the schema is not among the sources); the second is the library
  function \<^verbatim>\<open>fileTypeFromBuffer\<close>, giving the MIME type when it recognises one. The code
  compares the result of \<^verbatim>\<open>tx.auto.findUnique\<close> with \<^verbatim>\<open>null\<close> without \<^verbatim>\<open>await\<close>. An error
  inside the transaction rolls it back.
\<close>

definition addFile ::
  "bool \<Rightarrow> (nat list \<Rightarrow> string option) \<Rightarrow> db \<Rightarrow> int \<Rightarrow> uint8array \<Rightarrow> string \<Rightarrow> nat
     \<Rightarrow> (error + auto_file) \<times> db" where
  "addFile enforced fileTypeFromBuffer d autoId' data' filename' size' =
     (let auto' = tx_auto_findUnique d autoId'
      in if strictEqualsNull auto'
         then (Inl (NotFoundException (KeinAutoMitId (Some autoId'))), d)
         else
           let d1 = d\<lparr>autoFiles := filter (\<lambda>f. autoId f \<noteq> autoId') (autoFiles d)\<rparr>;
               mimetype' = fileTypeFromBuffer (viewBytes data');
               safeData = buffer data';
               autoFile = \<lparr>file_id = next_file_id d1, filename = filename',
                           data = safeData, mimetype = mimetype', autoId = autoId'\<rparr>
           in if enforced \<and> findUnique d1 autoId' = None
              then (Inl (PrismaError ForeignKeyViolation), d)
              else (Inr autoFile,
                    d1\<lparr>autoFiles := autoFiles d1 @ [autoFile],
                       next_file_id := next_file_id d1 + 1\<rparr>))"

section \<open>Filter builder\<close>

text \<open>
  The search parameters are an object with string values: its entries in the order of
  \<^verbatim>\<open>Object.entries\<close>. The keys of an object are distinct. A property that is absent reads
  as \<^verbatim>\<open>undefined\<close>, which is \<open>None\<close>.
\<close>

type_synonym suchparameter = "(string \<times> string) list"

text \<open>
  The filter handed to the store. A field is named by its path in the Prisma object, so
  \<open>rating_gte = Some n\<close> is \<^verbatim>\<open>where.rating = { gte: n }\<close>, and \<open>None\<close> is a property that is
  not set. The numbers are of the types \<open>'i\<close> and \<open>'f\<close> of what \<^verbatim>\<open>Number.parseInt\<close> and
  \<^verbatim>\<open>Number.parseFloat\<close> return; \<^verbatim>\<open>new Date(value)\<close> is kept as the string it is built from.
\<close>

record ('i, 'f) auto_where =
  fahrzeugschein_identifikationsNummer_contains_insensitive :: "string option"
  fin_equals :: "string option"
  rating_gte :: "'i option"
  preis_lte :: "'f option"
  art_equals :: "string option"
  verfuegbar_equals :: "bool option"
  baujahr_gte_new_Date :: "string option"
  homepage_equals :: "string option"
  schlagwoerter_array_contains :: "string list option"

definition emptyWhere :: "('i, 'f) auto_where" where
  "emptyWhere = \<lparr>fahrzeugschein_identifikationsNummer_contains_insensitive = None,
     fin_equals = None, rating_gte = None, preis_lte = None, art_equals = None,
     verfuegbar_equals = None, baujahr_gte_new_Date = None, homepage_equals = None,
     schlagwoerter_array_contains = None\<rparr>"

text \<open>The names that \<^verbatim>\<open>build\<close> takes out of the object as keyword flags.\<close>

definition tagNames :: "string list" where
  "tagNames = [''allrad'', ''benzin'', ''budget'', ''business'', ''cabrio'', ''e_auto'',
     ''einfach'', ''familie'', ''hybrid'', ''komfort'', ''kombi'', ''nutzfahrzeug'',
     ''pickup'', ''reichweite'', ''sparsam'', ''sport'', ''suv'', ''tech'', ''vier_x_vier'']"

definition restProps :: "suchparameter \<Rightarrow> suchparameter" where
  "restProps sp = filter (\<lambda>(key, value). key \<notin> set tagNames) sp"

text \<open>
  One round of the loop over \<^verbatim>\<open>Object.entries(restProps)\<close>: the \<^verbatim>\<open>switch\<close> on the key. The
  first two parameters are \<^verbatim>\<open>Number.parseInt\<close> (without a radix) and \<^verbatim>\<open>Number.parseFloat\<close>,
  with \<open>None\<close> for \<^verbatim>\<open>NaN\<close>.
\<close>

definition buildEntry ::
  "(string \<Rightarrow> 'i option) \<Rightarrow> (string \<Rightarrow> 'f option) \<Rightarrow> ('i, 'f) auto_where
     \<Rightarrow> string \<times> string \<Rightarrow> ('i, 'f) auto_where" where
  "buildEntry parseInt parseFloat w e =
     (let key = fst e; value = snd e
      in if key = ''identifikationsNummer''
           then w\<lparr>fahrzeugschein_identifikationsNummer_contains_insensitive := Some value\<rparr>
         else if key = ''fin'' then w\<lparr>fin_equals := Some value\<rparr>
         else if key = ''rating''
           then (case parseInt value of
                   None \<Rightarrow> w
                 | Some ratingNumber \<Rightarrow> w\<lparr>rating_gte := Some ratingNumber\<rparr>)
         else if key = ''preis''
           then (case parseFloat value of
                   None \<Rightarrow> w
                 | Some preisNumber \<Rightarrow> w\<lparr>preis_lte := Some preisNumber\<rparr>)
         else if key = ''art'' then w\<lparr>art_equals := Some value\<rparr>
         else if key = ''lieferbar''
           then w\<lparr>verfuegbar_equals := Some (toLowerCase value = ''true'')\<rparr>
         else if key = ''verfuegbar''
           then w\<lparr>verfuegbar_equals := Some (toLowerCase value = ''true'')\<rparr>
         else if key = ''baujahr'' \<or> key = ''datum''
           then w\<lparr>baujahr_gte_new_Date := Some value\<rparr>
         else if key = ''homepage'' then w\<lparr>homepage_equals := Some value\<rparr>
         else w)"

text \<open>\<^verbatim>\<open>flag?.toLowerCase() === 'true'\<close> for the property \<open>flag\<close> of the object.\<close>

definition flagIsTrue :: "suchparameter \<Rightarrow> string \<Rightarrow> bool" where
  "flagIsTrue sp flag =
     (case map_of sp flag of None \<Rightarrow> False | Some v \<Rightarrow> toLowerCase v = ''true'')"

text \<open>
  One line of \<^verbatim>\<open>#buildSchlagwoerter\<close>: what it pushes. Every line pushes at the end of the
  array, so the array returned is what the lines push, in their order.
\<close>

definition pushed :: "suchparameter \<Rightarrow> string \<Rightarrow> string \<Rightarrow> string list" where
  "pushed sp flag keyword = (if flagIsTrue sp flag then [keyword] else [])"

definition buildSchlagwoerter :: "suchparameter \<Rightarrow> string list" where
  "buildSchlagwoerter sp =
     pushed sp ''allrad'' ''ALLRAD'' @
     pushed sp ''benzin'' ''BENZIN'' @
     pushed sp ''budget'' ''BUDGET'' @
     pushed sp ''business'' ''BUSINESS'' @
     pushed sp ''cabrio'' ''CABRIO'' @
     pushed sp ''e_auto'' ''E-AUTO'' @
     pushed sp ''einfach'' ''EINFACH'' @
     pushed sp ''familie'' ''FAMILIE'' @
     pushed sp ''hybrid'' ''HYBRID'' @
     pushed sp ''komfort'' ''KOMFORT'' @
     pushed sp ''kombi'' ''KOMBI'' @
     pushed sp ''nutzfahrzeug'' ''NUTZFAHRZEUG'' @
     pushed sp ''pickup'' ''PICKUP'' @
     pushed sp ''reichweite'' ''REICHWEITE'' @
     pushed sp ''sparsam'' ''SPARSAM'' @
     pushed sp ''sport'' ''SPORT'' @
     pushed sp ''suv'' ''SUV'' @
     pushed sp ''tech'' ''TECH'' @
     pushed sp ''vier_x_vier'' ''4x4''"

definition build ::
  "(string \<Rightarrow> 'i option) \<Rightarrow> (string \<Rightarrow> 'f option) \<Rightarrow> suchparameter \<Rightarrow> ('i, 'f) auto_where" where
  "build parseInt parseFloat sp =
     (let where' = foldl (buildEntry parseInt parseFloat) emptyWhere (restProps sp);
          schlagwoerter' = buildSchlagwoerter sp
      in if length schlagwoerter' > 0
         then where'\<lparr>schlagwoerter_array_contains := Some schlagwoerter'\<rparr>
         else where')"

text \<open>
  The specification's wording of the keyword flags: the table from a flag to its keyword,
  and a value that equals \<open>true\<close> when the case of the letters is ignored.
\<close>

definition tagTable :: "(string \<times> string) list" where
  "tagTable = [(''allrad'', ''ALLRAD''), (''benzin'', ''BENZIN''), (''budget'', ''BUDGET''),
     (''business'', ''BUSINESS''), (''cabrio'', ''CABRIO''), (''e_auto'', ''E-AUTO''),
     (''einfach'', ''EINFACH''), (''familie'', ''FAMILIE''), (''hybrid'', ''HYBRID''),
     (''komfort'', ''KOMFORT''), (''kombi'', ''KOMBI''), (''nutzfahrzeug'', ''NUTZFAHRZEUG''),
     (''pickup'', ''PICKUP''), (''reichweite'', ''REICHWEITE''), (''sparsam'', ''SPARSAM''),
     (''sport'', ''SPORT''), (''suv'', ''SUV''), (''tech'', ''TECH''), (''vier_x_vier'', ''4x4'')]"

definition equalsTrueIgnoringCase :: "string \<Rightarrow> bool" where
  "equalsTrueIgnoringCase v =
     (case v of
        [a, b, c, d] \<Rightarrow>
          (a = CHR ''t'' \<or> a = CHR ''T'') \<and> (b = CHR ''r'' \<or> b = CHR ''R'') \<and>
          (c = CHR ''u'' \<or> c = CHR ''U'') \<and> (d = CHR ''e'' \<or> d = CHR ''E'')
      | _ \<Rightarrow> False)"

definition flagRequested :: "suchparameter \<Rightarrow> string \<Rightarrow> bool" where
  "flagRequested sp flag =
     (case map_of sp flag of None \<Rightarrow> False | Some v \<Rightarrow> equalsTrueIgnoringCase v)"

text \<open>The upper case of a name in ASCII letters.\<close>

definition asciiUpperCase :: "string \<Rightarrow> string" where
  "asciiUpperCase s =
     map (\<lambda>c. if 97 \<le> (of_char c :: nat) \<and> (of_char c :: nat) \<le> 122
               then char_of ((of_char c :: nat) - 32) else c) s"

section \<open>Read service: search\<close>

record pageable =
  number :: nat
  size' :: nat

record auto_slice =
  content :: "auto list"
  totalElements :: nat

text \<open>\<^verbatim>\<open>suchparameterNamen\<close>\<close>

definition suchparameterNamen :: "string list" where
  "suchparameterNamen = [''fin'', ''rating'', ''art'', ''preis'', ''rabatt'', ''verfuegbar'',
     ''baujahr'', ''homepage'', ''schlagwoerter'', ''identifikationsNummer'']"

definition keyIsValid :: "string \<Rightarrow> bool" where
  "keyIsValid key =
     (\<not> (key \<notin> set suchparameterNamen \<and>
         key \<noteq> ''allrad'' \<and> key \<noteq> ''benzin'' \<and> key \<noteq> ''budget'' \<and> key \<noteq> ''business'' \<and>
         key \<noteq> ''cabrio'' \<and> key \<noteq> ''e_auto'' \<and> key \<noteq> ''einfach'' \<and> key \<noteq> ''familie'' \<and>
         key \<noteq> ''hybrid'' \<and> key \<noteq> ''komfort'' \<and> key \<noteq> ''kombi'' \<and>
         key \<noteq> ''nutzfahrzeug'' \<and> key \<noteq> ''pickup'' \<and> key \<noteq> ''reichweite'' \<and>
         key \<noteq> ''sparsam'' \<and> key \<noteq> ''sport'' \<and> key \<noteq> ''suv'' \<and> key \<noteq> ''tech'' \<and>
         key \<noteq> ''vier_x_vier''))"

text \<open>\<^verbatim>\<open>#checkKeys\<close>: the loop clears the flag at every key that is not valid.\<close>

definition checkKeys :: "string list \<Rightarrow> bool" where
  "checkKeys keys = foldl (\<lambda>validKeys key. if \<not> keyIsValid key then False else validKeys) True keys"

definition checkEnums :: "suchparameter \<Rightarrow> bool" where
  "checkEnums sp =
     (case map_of sp ''art'' of
        None \<Rightarrow> True
      | Some art' \<Rightarrow>
          art' = ''SUV'' \<or> art' = ''CABRIO'' \<or> art' = ''LIMOUSINE'' \<or> art' = ''E_AUTO'' \<or>
          art' = ''KOMBI'' \<or> art' = ''PICKUP'' \<or> art' = ''CROSSOVER'')"

text \<open>
  What the read service needs from its platform: the two number parsers of \<^verbatim>\<open>build\<close>, and
  the store's reading of a filter, that is whether a row satisfies it.
\<close>

record ('i, 'f) platform =
  parseInt :: "string \<Rightarrow> 'i option"
  parseFloat :: "string \<Rightarrow> 'f option"
  satisfies :: "('i, 'f) auto_where \<Rightarrow> auto \<Rightarrow> bool"

text \<open>
  \<^verbatim>\<open>prisma.auto.findMany({ where, skip, take, include })\<close> with the registration included
  and the equipment not: the rows that satisfy the filter, from \<open>skip\<close> on, at most \<open>take\<close>
  of them.
\<close>

definition prisma_auto_findMany ::
  "('i, 'f) platform \<Rightarrow> ('i, 'f) auto_where option \<Rightarrow> nat \<Rightarrow> nat \<Rightarrow> db \<Rightarrow> auto list" where
  "prisma_auto_findMany p where' skip take' d =
     map (withInclude False)
       (take take' (drop skip
          (case where' of
             None \<Rightarrow> autos d
           | Some w \<Rightarrow> filter (satisfies p w) (autos d))))"

definition count :: "db \<Rightarrow> nat" where
  "count d = length (autos d)"

definition createSlice :: "auto list \<Rightarrow> nat \<Rightarrow> auto_slice" where
  "createSlice autos' totalElements' =
     \<lparr>content = map defaultSchlagwoerter autos', totalElements = totalElements'\<rparr>"

definition findAll :: "('i, 'f) platform \<Rightarrow> pageable \<Rightarrow> db \<Rightarrow> error + auto_slice" where
  "findAll p pageable' d =
     (let autos' = prisma_auto_findMany p None (number pageable' * size' pageable')
                     (size' pageable') d
      in if length autos' = 0
         then Inl (NotFoundException (UngueltigeSeite (number pageable')))
         else Inr (createSlice autos' (count d)))"

definition find_autos ::
  "('i, 'f) platform \<Rightarrow> suchparameter option \<Rightarrow> pageable \<Rightarrow> db \<Rightarrow> error + auto_slice" where
  "find_autos p suchparameter' pageable' d =
     (case suchparameter' of
        None \<Rightarrow> findAll p pageable' d
      | Some sp \<Rightarrow>
          let keys = map fst sp
          in if length keys = 0 then findAll p pageable' d
             else if \<not> checkKeys keys \<or> \<not> checkEnums sp
               then Inl (NotFoundException UngueltigeSuchparameter)
             else
               let where' = build (parseInt p) (parseFloat p) sp;
                   autos' = prisma_auto_findMany p (Some where')
                              (number pageable' * size' pageable') (size' pageable') d
               in if length autos' = 0
                  then Inl (NotFoundException (KeineAutosGefunden sp (number pageable')))
                  else Inr (createSlice autos' (count d)))"

text \<open>
  The specification's table of comparison parameters, with the aliases \<open>lieferbar\<close> and
  \<open>datum\<close>.
\<close>

definition specComparisonParameters :: "string list" where
  "specComparisonParameters = [''identifikationsNummer'', ''fin'', ''rating'', ''preis'',
     ''art'', ''verfuegbar'', ''lieferbar'', ''baujahr'', ''datum'', ''homepage'']"

section \<open>Sample data\<close>

text \<open>A small database on which the theorems below are exercised.\<close>

definition ex_auto :: auto where
  "ex_auto = \<lparr>auto_id = 1, version = 0, fin = ''WDB12345678901234'', rating = 4,
     art = Some ''SUV'', preis = 35000, rabatt = 0, verfuegbar = True,
     baujahr = Some ''2021-01-31'', homepage = None, schlagwoerter = None,
     fahrzeugschein = Some \<lparr>identifikationsNummer = ''KA-AB123'',
        erstzulassung = None, gueltigBis = ''2030-01-31''\<rparr>,
     ausstattungen = Some []\<rparr>"

definition ex_auto2 :: auto where
  "ex_auto2 = ex_auto\<lparr>auto_id := 2, version := 2, fin := ''WDB12345678901235'',
     rating := 2, schlagwoerter := Some [''SUV'', ''ALLRAD'']\<rparr>"

definition ex_db :: db where
  "ex_db = \<lparr>autos = [ex_auto, ex_auto2], autoFiles = [], next_auto_id = 3, next_file_id = 1\<rparr>"

definition ex_update :: auto_update where
  "ex_update = \<lparr>u_version = Some (SetTo 0), u_fin = None, u_rating = Some 5, u_art = None,
     u_preis = None, u_rabatt = None, u_verfuegbar = None, u_baujahr = None,
     u_homepage = None, u_schlagwoerter = Some [''FAMILIE'']\<rparr>"

definition ex_create :: auto_create where
  "ex_create = \<lparr>c_version = 0, c_fin = Some ''HUN12345678923451'', c_rating = 1,
     c_art = Some ''KOMBI'', c_preis = 99, c_rabatt = 0, c_verfuegbar = True,
     c_baujahr = None, c_homepage = None, c_schlagwoerter = Some [''KOMBI''],
     c_fahrzeugschein = \<lparr>identifikationsNummer = ''S-XY99'', erstzulassung = None,
        gueltigBis = ''2031-12-31''\<rparr>,
     c_ausstattungen = []\<rparr>"

definition ex_data :: uint8array where
  "ex_data = \<lparr>buffer = [137, 80, 78, 71], byteOffset = 0, byteLength = 4\<rparr>"

definition ex_fileType :: "nat list \<Rightarrow> string option" where
  "ex_fileType bytes = (if take 4 bytes = [137, 80, 78, 71] then Some ''image/png'' else None)"

text \<open>
  A sample platform: numbers are read as decimal integers, and a row satisfies a filter
  when it satisfies each condition that is set. The sample does not read dates and does
  not search substrings: a filter with one of these two conditions is satisfied by no row.
\<close>

definition ex_satisfies :: "(int, rat) auto_where \<Rightarrow> auto \<Rightarrow> bool" where
  "ex_satisfies w a =
     (fahrzeugschein_identifikationsNummer_contains_insensitive w = None \<and>
      baujahr_gte_new_Date w = None \<and>
      (case fin_equals w of None \<Rightarrow> True | Some f \<Rightarrow> fin a = f) \<and>
      (case rating_gte w of None \<Rightarrow> True | Some n \<Rightarrow> n \<le> rating a) \<and>
      (case preis_lte w of None \<Rightarrow> True | Some x \<Rightarrow> preis a \<le> x) \<and>
      (case art_equals w of None \<Rightarrow> True | Some t \<Rightarrow> art a = Some t) \<and>
      (case verfuegbar_equals w of None \<Rightarrow> True | Some b \<Rightarrow> verfuegbar a = b) \<and>
      (case homepage_equals w of None \<Rightarrow> True | Some h \<Rightarrow> homepage a = Some h) \<and>
      (case schlagwoerter_array_contains w of
         None \<Rightarrow> True
       | Some ks \<Rightarrow> list_all (\<lambda>k. k \<in> set (orElse (schlagwoerter a) [])) ks))"

definition ex_platform :: "(int, rat) platform" where
  "ex_platform = \<lparr>parseInt = parseInt_radix10,
     parseFloat = (\<lambda>s. map_option of_int (parseInt_radix10 s)),
     satisfies = ex_satisfies\<rparr>"

definition ex_pageable :: pageable where
  "ex_pageable = \<lparr>number = 0, size' = 5\<rparr>"

section \<open>Properties of the version check\<close>

lemma slice_1_m1: "slice s 1 (- 1) = butlast (tl s)"
proof (cases s)
  case Nil
  then show ?thesis by (simp add: slice_def)
next
  case (Cons c r)
  have "nat (int (length r) - 1) = length r - 1" by arith
  with Cons show ?thesis by (simp add: slice_def Let_def butlast_conv_take)
qed

lemma quotedDecimal_iff:
  "quotedDecimal s \<longleftrightarrow> (\<exists>ds. s = dquote # ds @ [dquote] \<and> ds \<noteq> [] \<and> length ds \<le> 3 \<and> list_all isDigit ds)"
proof
  assume q: "quotedDecimal s"
  then have len: "2 \<le> length s" and h: "hd s = dquote" and l: "last s = dquote"
    and n: "length s - 2 \<in> {1, 2, 3}" and d: "list_all isDigit (butlast (tl s))"
    by (simp_all add: quotedDecimal_def)
  from len obtain c r where s: "s = c # r" by (cases s) auto
  with len have r: "r \<noteq> []" by auto
  then have r2: "r = butlast r @ [last r]" by simp
  have lb: "length (butlast r) = length s - 2" using s by simp
  have "s = dquote # butlast r @ [dquote]" using s h l r r2 by auto
  moreover have "butlast r \<noteq> []"
  proof -
    have "length (butlast r) \<noteq> 0" using n unfolding lb by auto
    then show ?thesis by (metis list.size(3))
  qed
  moreover have "length (butlast r) \<le> 3" using n unfolding lb by auto
  moreover have "list_all isDigit (butlast r)" using d s by simp
  ultimately show "\<exists>ds. s = dquote # ds @ [dquote] \<and> ds \<noteq> [] \<and> length ds \<le> 3 \<and> list_all isDigit ds"
    by blast
next
  assume "\<exists>ds. s = dquote # ds @ [dquote] \<and> ds \<noteq> [] \<and> length ds \<le> 3 \<and> list_all isDigit ds"
  then obtain ds where ds: "s = dquote # ds @ [dquote]" "ds \<noteq> []" "length ds \<le> 3" "list_all isDigit ds" by blast
  have "0 < length ds" using ds(2) by simp
  then have "length ds = 1 \<or> length ds = 2 \<or> length ds = 3" using ds(3) by arith
  then show "quotedDecimal s"
    using ds(1,4) by (auto simp: quotedDecimal_def)
qed

lemma dquote_not_digit: "\<not> isDigit dquote"
  by (simp add: isDigit_def dquote_def)

lemma pattern_of_quoted:
  assumes "ds \<noteq> []" "length ds \<le> 3" "list_all isDigit ds"
  shows "VERSION_PATTERN_test (dquote # ds @ [dquote] @ rest)"
proof -
  have "0 < length ds" using assms(1) by simp
  then have "length ds = 1 \<or> length ds = 2 \<or> length ds = 3" using assms(2) by arith
  then have k: "length ds \<in> set [1, 2, 3]" by auto
  have "length ds + 2 \<le> length (dquote # ds @ [dquote] @ rest) \<and> (dquote # ds @ [dquote] @ rest) ! 0 = dquote \<and>
        list_all isDigit (take (length ds) (drop 1 (dquote # ds @ [dquote] @ rest))) \<and>
        (dquote # ds @ [dquote] @ rest) ! (length ds + 1) = dquote"
    using assms(3) by (simp add: nth_append)
  with k show ?thesis unfolding VERSION_PATTERN_test_def list_ex_iff by blast
qed

lemma pattern_iff:
  "VERSION_PATTERN_test s \<longleftrightarrow>
     (\<exists>ds rest. s = dquote # ds @ [dquote] @ rest \<and> ds \<noteq> [] \<and> length ds \<le> 3 \<and> list_all isDigit ds)"
proof
  assume "VERSION_PATTERN_test s"
  then obtain k where k: "k \<in> set [1, 2, 3]" "k + 2 \<le> length s" "s ! 0 = dquote"
      "list_all isDigit (take k (drop 1 s))" "s ! (k + 1) = dquote"
    unfolding VERSION_PATTERN_test_def list_ex_iff by blast
  let ?ds = "take k (drop 1 s)" and ?rest = "drop (k + 2) s"
  have "s = take 1 s @ ?ds @ take 1 (drop (k + 1) s) @ ?rest"
    by (metis append_take_drop_id drop_drop add.commute Suc_eq_plus1 add_2_eq_Suc')
  moreover have "take 1 s = [dquote]" using k(2,3) by (cases s) auto
  moreover have "take 1 (drop (k + 1) s) = [dquote]" using k(2,5)
    by (simp add: take_Suc_conv_app_nth)
  ultimately have "s = dquote # ?ds @ [dquote] @ ?rest" by simp
  moreover have "?ds \<noteq> []" "length ?ds \<le> 3" using k(1,2) by auto
  ultimately show "\<exists>ds rest. s = dquote # ds @ [dquote] @ rest \<and> ds \<noteq> [] \<and> length ds \<le> 3 \<and> list_all isDigit ds"
    using k(4) by blast
next
  assume "\<exists>ds rest. s = dquote # ds @ [dquote] @ rest \<and> ds \<noteq> [] \<and> length ds \<le> 3 \<and> list_all isDigit ds"
  then show "VERSION_PATTERN_test s" using pattern_of_quoted by blast
qed

lemma digit_not_ws: "isDigit c \<Longrightarrow> \<not> isWhiteSpace c"
  by (auto simp: isDigit_def isWhiteSpace_def)

lemma digit_not_sign: "isDigit c \<Longrightarrow> c \<noteq> CHR ''-'' \<and> c \<noteq> CHR ''+''"
  by (auto simp: isDigit_def)

lemma parseInt_digits:
  assumes "ds \<noteq> []" "list_all isDigit ds" "rest = [] \<or> \<not> isDigit (hd rest)"
  shows "parseInt_radix10 (ds @ rest) = Some (int (decimalValue ds))"
proof -
  from assms(1) obtain c r where ds: "ds = c # r" by (cases ds) auto
  with assms(2) have c: "isDigit c" by simp
  have tw: "takeWhile isDigit (ds @ rest) = ds"
    using assms(2,3) by (cases rest) (auto simp: list_all_iff intro: takeWhile_eq_all_conv[THEN iffD2])
  show ?thesis
    using c tw digit_not_ws[OF c] digit_not_sign[OF c] assms(1)
    by (simp add: parseInt_radix10_def ds Let_def)
qed

lemma find_map_update:
  assumes "\<And>x. auto_id (g x) = auto_id x"
  shows "find (\<lambda>a. auto_id a = i) (map (\<lambda>x. if auto_id x = i then g x else x) xs)
     = map_option g (find (\<lambda>a. auto_id a = i) xs)"
  using assms by (induction xs) auto

lemma auto_id_applyUpdate: "auto_id (applyUpdate u a) = auto_id a"
  by (simp add: applyUpdate_def)

lemma version_applyUpdate_increment:
  "version (applyUpdate (u\<lparr>u_version := Some (Increment k)\<rparr>) a) = version a + k"
  by (simp add: applyUpdate_def)

lemma findUnique_after_update:
  "findUnique (d\<lparr>autos := map (\<lambda>x. if auto_id x = i then applyUpdate u x else x) (autos d)\<rparr>) i
     = map_option (applyUpdate u) (findUnique d i)"
  by (simp add: findUnique_def find_map_update auto_id_applyUpdate)

lemma version_findById:
  "findUnique d i = Some a \<Longrightarrow> \<exists>b. findById d i m = Inr b \<and> version b = version a"
  by (simp add: findById_def defaultSchlagwoerter_def withInclude_def split: option.splits)

lemma quotedDecimal_parse:
  assumes "quotedDecimal s"
  shows "VERSION_PATTERN_test s \<and> (\<exists>v. parseInt_radix10 (slice s 1 (- 1)) = Some v)"
proof -
  from assms obtain ds where ds: "s = dquote # ds @ [dquote]" "ds \<noteq> []" "length ds \<le> 3" "list_all isDigit ds"
    unfolding quotedDecimal_iff by blast
  have "VERSION_PATTERN_test (dquote # ds @ [dquote] @ [])" using ds(2-4) by (rule pattern_of_quoted)
  moreover have "slice s 1 (- 1) = ds @ []" by (simp add: slice_1_m1 ds(1) butlast_append)
  moreover have "parseInt_radix10 (ds @ []) = Some (int (decimalValue ds))"
    using ds(2,4) by (rule parseInt_digits) simp
  ultimately show ?thesis using ds(1) by simp
qed

text \<open>
  Claim C4. An update of an existing vehicle with a well-formed version string: the digits
  parse to a number \<open>v\<close>; when \<open>v\<close> is below the stored version the call fails with
  \<^verbatim>\<open>VersionOutdatedException\<close> carrying \<open>v\<close> and the database is as before; when \<open>v\<close> is
  the stored version or above it, the call returns the stored version plus one, and that
  is the version stored afterwards.
\<close>

theorem update_version_check:
  assumes "findUnique d i = Some a" and "quotedDecimal versionStr"
  shows "\<exists>v. parseInt_radix10 (slice versionStr 1 (- 1)) = Some v \<and>
     (v < version a \<longrightarrow>
        update d (Some i) u versionStr = (Inl (VersionOutdatedException v), d)) \<and>
     (version a \<le> v \<longrightarrow>
        (\<exists>d'. update d (Some i) u versionStr = (Inr (version a + 1), d') \<and>
              map_option version (findUnique d' i) = Some (version a + 1)))"
proof -
  from quotedDecimal_parse[OF assms(2)] obtain v where
    pat: "VERSION_PATTERN_test versionStr" and v: "parseInt_radix10 (slice versionStr 1 (- 1)) = Some v"
    by blast
  from version_findById[OF assms(1)] obtain b where
    b: "findById d i False = Inr b" "version b = version a" by blast
  let ?u = "u\<lparr>u_version := Some (Increment 1)\<rparr>"
  let ?d' = "d\<lparr>autos := map (\<lambda>x. if auto_id x = i then applyUpdate ?u x else x) (autos d)\<rparr>"
  have outdated: "update d (Some i) u versionStr = (Inl (VersionOutdatedException v), d)"
    if "v < version a"
    using that pat v b by (simp add: update_def validateUpdate_def)
  have valid: "validateUpdate d i versionStr = Inr ()" if "version a \<le> v"
    using that pat v b by (simp add: validateUpdate_def)
  have upd: "prisma_auto_update d i ?u = Inr (applyUpdate ?u a, ?d')"
    using assms(1) by (simp add: prisma_auto_update_def)
  have ok: "update d (Some i) u versionStr = (Inr (version a + 1), ?d')" if "version a \<le> v"
    using valid[OF that] upd by (simp add: update_def version_applyUpdate_increment)
  have stored: "map_option version (findUnique ?d' i) = Some (version a + 1)"
    using assms(1) by (simp add: findUnique_after_update version_applyUpdate_increment)
  show ?thesis using v outdated ok stored by blast
qed

text \<open>
  Both branches on the sample database: version \<open>"0"\<close> for the vehicle 1 (stored version 0),
  and version \<open>"1"\<close> for the vehicle 2 (stored version 2).
\<close>

theorem update_version_check_witness:
  "fst (update ex_db (Some 1) ex_update [dquote, CHR ''0'', dquote]) = Inr 1 \<and>
   update ex_db (Some 2) ex_update [dquote, CHR ''1'', dquote] = (Inl (VersionOutdatedException 1), ex_db)"
proof -
  have a1: "findUnique ex_db 1 = Some ex_auto"
    by (simp add: findUnique_def ex_db_def ex_auto_def)
  have a2: "findUnique ex_db 2 = Some ex_auto2"
    by (simp add: findUnique_def ex_db_def ex_auto_def ex_auto2_def)
  have q0: "quotedDecimal [dquote, CHR ''0'', dquote]"
    by (simp add: quotedDecimal_def isDigit_def)
  have q1: "quotedDecimal [dquote, CHR ''1'', dquote]"
    by (simp add: quotedDecimal_def isDigit_def)
  have p0: "parseInt_radix10 (slice [dquote, CHR ''0'', dquote] 1 (- 1)) = Some 0"
    by (simp add: slice_def parseInt_radix10_def isWhiteSpace_def isDigit_def decimalValue_def digitValue_def dquote_def)
  have p1: "parseInt_radix10 (slice [dquote, CHR ''1'', dquote] 1 (- 1)) = Some 1"
    by (simp add: slice_def parseInt_radix10_def isWhiteSpace_def isDigit_def decimalValue_def digitValue_def dquote_def)
  have v1: "version ex_auto = 0" by (simp add: ex_auto_def)
  have v2: "version ex_auto2 = 2" by (simp add: ex_auto2_def)
  show ?thesis
    using update_version_check[OF a1 q0, of ex_update] update_version_check[OF a2 q1, of ex_update]
    by (auto simp: p0 p1 v1 v2)
qed

text \<open>
  Claim C2. The claim says that a version string with characters after the closing quote
  is rejected with \<^verbatim>\<open>VersionInvalidException\<close>. The pattern is not anchored at the end:
  the string \<open>"0"x\<close> is not a quoted decimal, it passes the test, \<^verbatim>\<open>slice(1, -1)\<close> leaves
  \<open>0"\<close>, which parses to 0, and the update of the vehicle 1 goes through.
\<close>

theorem update_accepts_trailing_characters:
  "\<not> quotedDecimal [dquote, CHR ''0'', dquote, CHR ''x''] \<and>
   fst (update ex_db (Some 1) ex_update [dquote, CHR ''0'', dquote, CHR ''x'']) = Inr 1"
  by (simp add: quotedDecimal_def update_def validateUpdate_def VERSION_PATTERN_test_def
      isDigit_def dquote_def slice_def parseInt_radix10_def isWhiteSpace_def decimalValue_def
      digitValue_def findById_def findUnique_def ex_db_def ex_auto_def ex_auto2_def
      defaultSchlagwoerter_def withInclude_def prisma_auto_update_def applyUpdate_def
      ex_update_def orElse_def)

text \<open>
  What the code does: \<^verbatim>\<open>VersionInvalidException\<close>, with the raw string, exactly for the
  strings that fail the unanchored pattern.
\<close>

lemma update_VersionInvalid_iff:
  "update d (Some i) u s = (Inl (VersionInvalidException s'), d') \<longleftrightarrow>
     \<not> VERSION_PATTERN_test s \<and> s' = s \<and> d' = d"
  by (auto simp: update_def validateUpdate_def findById_def Let_def
      split: option.splits sum.splits if_splits prod.splits)

section \<open>Properties of create\<close>

text \<open>
  Claim C9. A create whose FIN is defined: when the store counts a row with that FIN, the
  call fails with \<^verbatim>\<open>FinExistsException\<close> carrying the FIN and the database is as before;
  when the count is 0, the validation passes, one row with that FIN is appended, and its
  id, the next of the sequence, is returned.
\<close>

theorem create_fin_check:
  assumes "c_fin input = Some f"
  shows "(0 < prisma_auto_count_fin d f \<longrightarrow> create d input = (Inl (FinExistsException f), d)) \<and>
         (prisma_auto_count_fin d f = 0 \<longrightarrow>
            validateCreate d input = Inr () \<and>
            (\<exists>a. create d input =
                   (Inr (auto_id a), d\<lparr>autos := autos d @ [a], next_auto_id := next_auto_id d + 1\<rparr>) \<and>
                 auto_id a = next_auto_id d \<and> fin a = f))"
proof (intro conjI impI)
  assume "0 < prisma_auto_count_fin d f"
  then show "create d input = (Inl (FinExistsException f), d)"
    using assms by (simp add: create_def validateCreate_def)
next
  assume zero: "prisma_auto_count_fin d f = 0"
  then show valid: "validateCreate d input = Inr ()"
    using assms by (simp add: validateCreate_def)
  obtain a d' where ins: "prisma_auto_create d input = Inr (a, d')"
    and a: "auto_id a = next_auto_id d" "fin a = f"
    and d': "d' = d\<lparr>autos := autos d @ [a], next_auto_id := next_auto_id d + 1\<rparr>"
    using assms by (simp add: prisma_auto_create_def Let_def)
  have "create d input = (Inr (auto_id a), d')"
    using valid ins by (simp add: create_def)
  with a d' show "\<exists>a. create d input =
       (Inr (auto_id a), d\<lparr>autos := autos d @ [a], next_auto_id := next_auto_id d + 1\<rparr>) \<and>
       auto_id a = next_auto_id d \<and> fin a = f"
    by blast
qed

text \<open>On the sample database: a FIN that is stored already, and a new one.\<close>

theorem create_fin_check_witness:
  "create ex_db (ex_create\<lparr>c_fin := Some ''WDB12345678901234''\<rparr>)
      = (Inl (FinExistsException ''WDB12345678901234''), ex_db) \<and>
   fst (create ex_db ex_create) = Inr 3 \<and>
   length (autos (snd (create ex_db ex_create))) = 3"
proof -
  have f1: "c_fin (ex_create\<lparr>c_fin := Some ''WDB12345678901234''\<rparr>) = Some ''WDB12345678901234''"
    by simp
  have f2: "c_fin ex_create = Some ''HUN12345678923451''"
    by (simp add: ex_create_def)
  have c1: "prisma_auto_count_fin ex_db ''WDB12345678901234'' = 1"
    by (simp add: prisma_auto_count_fin_def ex_db_def ex_auto_def ex_auto2_def)
  have c2: "prisma_auto_count_fin ex_db ''HUN12345678923451'' = 0"
    by (simp add: prisma_auto_count_fin_def ex_db_def ex_auto_def ex_auto2_def)
  have n: "next_auto_id ex_db = 3" "length (autos ex_db) = 2"
    by (simp_all add: ex_db_def)
  show ?thesis
    using create_fin_check[OF f1, of ex_db] create_fin_check[OF f2, of ex_db]
    by (auto simp: c1 c2 n)
qed

section \<open>Properties of attaching a file\<close>

text \<open>
  The promise that \<^verbatim>\<open>tx.auto.findUnique\<close> returns is compared with \<^verbatim>\<open>null\<close> before it is
  awaited, so the branch that raises \<^verbatim>\<open>NotFoundException\<close> is never taken.
\<close>

lemma addFile_never_NotFound:
  "fst (addFile enforced ft d i dat fn sz) \<noteq> Inl (NotFoundException m)"
  by (simp add: addFile_def tx_auto_findUnique_def Let_def)

text \<open>
  Claim C1. The claim says that \<^verbatim>\<open>addFile\<close> for an id without a vehicle fails with
  \<^verbatim>\<open>NotFoundException\<close> and stores nothing. The sample database has no vehicle 99: when
  the store does not enforce the reference, the file is stored for the id 99 and returned;
  when it does, the call fails with the error of the store.
\<close>

theorem addFile_missing_auto:
  "findUnique ex_db 99 = None \<and>
   fst (addFile False ex_fileType ex_db 99 ex_data ''bild.png'' 4)
     = Inr \<lparr>file_id = 1, filename = ''bild.png'', data = [137, 80, 78, 71],
            mimetype = Some ''image/png'', autoId = 99\<rparr> \<and>
   length (autoFiles (snd (addFile False ex_fileType ex_db 99 ex_data ''bild.png'' 4))) = 1 \<and>
   fst (addFile True ex_fileType ex_db 99 ex_data ''bild.png'' 4)
     = Inl (PrismaError ForeignKeyViolation)"
  by (simp add: addFile_def tx_auto_findUnique_def Let_def findUnique_def ex_db_def
      ex_auto_def ex_auto2_def ex_data_def ex_fileType_def viewBytes_def)

section \<open>Properties of the filter builder\<close>

lemma char_toLowerCase_eq_lower:
  assumes "97 \<le> (of_char c :: nat)" "(of_char c :: nat) \<le> 122"
  shows "char_toLowerCase a = c \<longleftrightarrow>
           (of_char a :: nat) = of_char c \<or> (of_char a :: nat) = of_char c - 32"
proof -
  let ?n = "of_char a :: nat" and ?m = "of_char c :: nat"
  have n: "?n < 256" by simp
  show ?thesis
  proof (cases "(65 \<le> ?n \<and> ?n \<le> 90) \<or> (192 \<le> ?n \<and> ?n \<le> 222 \<and> ?n \<noteq> 215)")
    case True
    then have up: "char_toLowerCase a = char_of (?n + 32)" by (simp add: char_toLowerCase_def Let_def)
    have "char_of (?n + 32) = c \<longleftrightarrow> (?n + 32) mod 256 = ?m"
      by (metis of_char_of of_char_eq_iff)
    also have "\<dots> \<longleftrightarrow> ?n = ?m - 32" using True assms n by auto
    finally have "char_toLowerCase a = c \<longleftrightarrow> ?n = ?m - 32" using up by simp
    moreover have "?n \<noteq> ?m" using True assms by auto
    ultimately show ?thesis by simp
  next
    case False
    then have same: "char_toLowerCase a = a" by (auto simp add: char_toLowerCase_def Let_def)
    have "?n \<noteq> ?m - 32" using False assms by auto
    moreover have "a = c \<longleftrightarrow> ?n = ?m" by simp
    ultimately show ?thesis using same by simp
  qed
qed

lemma char_eq_code: "a = b \<longleftrightarrow> (of_char a :: nat) = of_char b"
  by simp

lemma lower_t: "char_toLowerCase a = CHR ''t'' \<longleftrightarrow> a = CHR ''t'' \<or> a = CHR ''T''"
  using char_toLowerCase_eq_lower[of "CHR ''t''" a]
  by (simp add: char_eq_code[of a "CHR ''t''"] char_eq_code[of a "CHR ''T''"])

lemma lower_r: "char_toLowerCase a = CHR ''r'' \<longleftrightarrow> a = CHR ''r'' \<or> a = CHR ''R''"
  using char_toLowerCase_eq_lower[of "CHR ''r''" a]
  by (simp add: char_eq_code[of a "CHR ''r''"] char_eq_code[of a "CHR ''R''"])

lemma lower_u: "char_toLowerCase a = CHR ''u'' \<longleftrightarrow> a = CHR ''u'' \<or> a = CHR ''U''"
  using char_toLowerCase_eq_lower[of "CHR ''u''" a]
  by (simp add: char_eq_code[of a "CHR ''u''"] char_eq_code[of a "CHR ''U''"])

lemma lower_e: "char_toLowerCase a = CHR ''e'' \<longleftrightarrow> a = CHR ''e'' \<or> a = CHR ''E''"
  using char_toLowerCase_eq_lower[of "CHR ''e''" a]
  by (simp add: char_eq_code[of a "CHR ''e''"] char_eq_code[of a "CHR ''E''"])

lemma toLowerCase_true: "toLowerCase v = ''true'' \<longleftrightarrow> equalsTrueIgnoringCase v"
proof (cases v)
  case Nil
  then show ?thesis by (simp add: toLowerCase_def equalsTrueIgnoringCase_def)
next
  case (Cons a v1)
  show ?thesis
  proof (cases v1)
    case Nil
    with Cons show ?thesis by (simp add: toLowerCase_def equalsTrueIgnoringCase_def)
  next
    case (Cons b v2)
    note v1 = this
    show ?thesis
    proof (cases v2)
      case Nil
      with \<open>v = a # v1\<close> v1 show ?thesis by (simp add: toLowerCase_def equalsTrueIgnoringCase_def)
    next
      case (Cons c v3)
      note v2 = this
      show ?thesis
      proof (cases v3)
        case Nil
        with \<open>v = a # v1\<close> v1 v2 show ?thesis by (simp add: toLowerCase_def equalsTrueIgnoringCase_def)
      next
        case (Cons d v4)
        with \<open>v = a # v1\<close> v1 v2 show ?thesis
          by (cases v4) (simp_all add: toLowerCase_def equalsTrueIgnoringCase_def lower_t lower_r lower_u lower_e)
      qed
    qed
  qed
qed

text \<open>
  The table has the flags that \<^verbatim>\<open>build\<close> takes out of the object, and maps each of them to
  its name in upper case, but for the two special cases.
\<close>

lemma tagTable_names: "map fst tagTable = tagNames"
  by (simp add: tagTable_def tagNames_def)

lemma tagTable_keywords:
  "list_all (\<lambda>(flag, keyword). keyword =
      (if flag = ''e_auto'' then ''E-AUTO''
       else if flag = ''vier_x_vier'' then ''4x4''
       else asciiUpperCase flag)) tagTable"
  by (simp add: tagTable_def asciiUpperCase_def char_of_def bit_Suc_0_iff)

lemma flagIsTrue_flagRequested: "flagIsTrue sp flag = flagRequested sp flag"
  by (simp add: flagIsTrue_def flagRequested_def toLowerCase_true split: option.splits)

lemma buildSchlagwoerter_tagTable:
  "buildSchlagwoerter sp = map snd (filter (\<lambda>(flag, keyword). flagRequested sp flag) tagTable)"
  by (simp add: buildSchlagwoerter_def pushed_def tagTable_def flagIsTrue_flagRequested)

lemma buildEntry_schlagwoerter:
  "schlagwoerter_array_contains (buildEntry pI pF w e) = schlagwoerter_array_contains w"
  by (simp add: buildEntry_def Let_def split: option.splits)

lemma foldl_buildEntry_schlagwoerter:
  "schlagwoerter_array_contains (foldl (buildEntry pI pF) w es) = schlagwoerter_array_contains w"
  by (induction es arbitrary: w) (simp_all add: buildEntry_schlagwoerter)

lemma emptyWhere_schlagwoerter: "schlagwoerter_array_contains emptyWhere = None"
  by (simp add: emptyWhere_def)

text \<open>
  Claim C6. The keywords that \<^verbatim>\<open>build\<close> requires are the keywords of the table, in its
  order, for the flags whose value equals \<open>true\<close> when the case of the letters is ignored
  (the table maps \<open>e_auto\<close> to \<open>E-AUTO\<close> and \<open>vier_x_vier\<close> to \<open>4x4\<close>); and the filter has
  the condition \<^verbatim>\<open>array_contains\<close> on all of these keywords exactly when there is at least
  one.
\<close>

theorem build_schlagwoerter:
  "buildSchlagwoerter sp = map snd (filter (\<lambda>(flag, keyword). flagRequested sp flag) tagTable) \<and>
   schlagwoerter_array_contains (build pI pF sp) =
     (if buildSchlagwoerter sp = [] then None else Some (buildSchlagwoerter sp))"
  by (simp add: buildSchlagwoerter_tagTable [symmetric] build_def Let_def
      foldl_buildEntry_schlagwoerter emptyWhere_schlagwoerter)

text \<open>Two objects: one with the two special flags set, one with no flag set.\<close>

theorem build_schlagwoerter_witness:
  "buildSchlagwoerter [(''e_auto'', ''True''), (''suv'', ''false''), (''vier_x_vier'', ''TRUE'')]
     = [''E-AUTO'', ''4x4''] \<and>
   schlagwoerter_array_contains
     (build parseInt_radix10 parseInt_radix10
        [(''e_auto'', ''True''), (''suv'', ''false''), (''vier_x_vier'', ''TRUE'')])
     = Some [''E-AUTO'', ''4x4''] \<and>
   schlagwoerter_array_contains
     (build parseInt_radix10 parseInt_radix10 [(''suv'', ''yes''), (''rating'', ''4'')]) = None"
proof -
  have t: "equalsTrueIgnoringCase ''True''" "equalsTrueIgnoringCase ''TRUE''"
    "\<not> equalsTrueIgnoringCase ''false''" "\<not> equalsTrueIgnoringCase ''yes''"
    by (simp_all add: equalsTrueIgnoringCase_def)
  have a: "map snd (filter (\<lambda>(flag, keyword). flagRequested
       [(''e_auto'', ''True''), (''suv'', ''false''), (''vier_x_vier'', ''TRUE'')] flag) tagTable)
     = [''E-AUTO'', ''4x4'']"
    by (simp add: tagTable_def flagRequested_def t)
  have b: "map snd (filter (\<lambda>(flag, keyword). flagRequested
       [(''suv'', ''yes''), (''rating'', ''4'')] flag) tagTable) = []"
    by (simp add: tagTable_def flagRequested_def t)
  show ?thesis
    using build_schlagwoerter[of "[(''e_auto'', ''True''), (''suv'', ''false''), (''vier_x_vier'', ''TRUE'')]"
        parseInt_radix10 parseInt_radix10]
      build_schlagwoerter[of "[(''suv'', ''yes''), (''rating'', ''4'')]" parseInt_radix10 parseInt_radix10]
    by (simp add: a b)
qed

lemma distinct_restProps: "distinct (map fst sp) \<Longrightarrow> distinct (map fst (restProps sp))"
  by (simp add: restProps_def distinct_map_filter)

lemma map_of_filter_key:
  "P k \<Longrightarrow> map_of (filter (\<lambda>(key, value). P key) sp) k = map_of sp k"
  by (induction sp) auto

lemma map_of_restProps:
  "k \<notin> set tagNames \<Longrightarrow> map_of (restProps sp) k = map_of sp k"
  unfolding restProps_def by (rule map_of_filter_key[where P = "\<lambda>key. key \<notin> set tagNames"])

lemma buildEntry_rating:
  "rating_gte (buildEntry pI pF w e) =
     (if fst e = ''rating'' then (case pI (snd e) of None \<Rightarrow> rating_gte w | Some n \<Rightarrow> Some n)
      else rating_gte w)"
  by (simp add: buildEntry_def Let_def split: option.splits)

lemma buildEntry_preis:
  "preis_lte (buildEntry pI pF w e) =
     (if fst e = ''preis'' then (case pF (snd e) of None \<Rightarrow> preis_lte w | Some x \<Rightarrow> Some x)
      else preis_lte w)"
  by (simp add: buildEntry_def Let_def split: option.splits)

lemma foldl_buildEntry_rating:
  assumes "distinct (map fst es)"
  shows "rating_gte (foldl (buildEntry pI pF) w es) =
     (case map_of es ''rating'' of
        None \<Rightarrow> rating_gte w
      | Some v \<Rightarrow> (case pI v of None \<Rightarrow> rating_gte w | Some n \<Rightarrow> Some n))"
  using assms
proof (induction es arbitrary: w)
  case Nil
  then show ?case by simp
next
  case (Cons e es)
  obtain k v where e: "e = (k, v)" by (cases e)
  from Cons.prems have d: "distinct (map fst es)" and k: "k \<notin> fst ` set es" by (simp_all add: e)
  show ?case
  proof (cases "k = ''rating''")
    case True
    with k have "map_of es ''rating'' = None" by (simp add: map_of_eq_None_iff)
    with True show ?thesis by (simp add: Cons.IH[OF d] e buildEntry_rating split: option.splits)
  next
    case False
    then show ?thesis by (simp add: Cons.IH[OF d] e buildEntry_rating split: option.splits)
  qed
qed

lemma foldl_buildEntry_preis:
  assumes "distinct (map fst es)"
  shows "preis_lte (foldl (buildEntry pI pF) w es) =
     (case map_of es ''preis'' of
        None \<Rightarrow> preis_lte w
      | Some v \<Rightarrow> (case pF v of None \<Rightarrow> preis_lte w | Some x \<Rightarrow> Some x))"
  using assms
proof (induction es arbitrary: w)
  case Nil
  then show ?case by simp
next
  case (Cons e es)
  obtain k v where e: "e = (k, v)" by (cases e)
  from Cons.prems have d: "distinct (map fst es)" and k: "k \<notin> fst ` set es" by (simp_all add: e)
  show ?case
  proof (cases "k = ''preis''")
    case True
    with k have "map_of es ''preis'' = None" by (simp add: map_of_eq_None_iff)
    with True show ?thesis by (simp add: Cons.IH[OF d] e buildEntry_preis split: option.splits)
  next
    case False
    then show ?thesis by (simp add: Cons.IH[OF d] e buildEntry_preis split: option.splits)
  qed
qed

lemma rating_not_tag: "''rating'' \<notin> set tagNames" and preis_not_tag: "''preis'' \<notin> set tagNames"
  by (simp_all add: tagNames_def)

lemma build_rating_gte:
  assumes "distinct (map fst sp)"
  shows "rating_gte (build pI pF sp) =
     (case map_of sp ''rating'' of None \<Rightarrow> None | Some v \<Rightarrow> pI v)"
  by (simp add: build_def Let_def foldl_buildEntry_rating[OF distinct_restProps[OF assms]]
      map_of_restProps[OF rating_not_tag] emptyWhere_def split: option.splits)

lemma build_preis_lte:
  assumes "distinct (map fst sp)"
  shows "preis_lte (build pI pF sp) =
     (case map_of sp ''preis'' of None \<Rightarrow> None | Some v \<Rightarrow> pF v)"
  by (simp add: build_def Let_def foldl_buildEntry_preis[OF distinct_restProps[OF assms]]
      map_of_restProps[OF preis_not_tag] emptyWhere_def split: option.splits)

text \<open>An entry that leaves the filter as it is can be dropped from the object.\<close>

lemma foldl_buildEntry_skip:
  assumes "\<And>e w. e \<in> set es \<Longrightarrow> fst e = key \<Longrightarrow> buildEntry pI pF w e = w"
  shows "foldl (buildEntry pI pF) w es
       = foldl (buildEntry pI pF) w (filter (\<lambda>(k, v). k \<noteq> key) es)"
  using assms
proof (induction es arbitrary: w)
  case Nil
  then show ?case by simp
next
  case (Cons e es)
  have ih: "foldl (buildEntry pI pF) w' es
       = foldl (buildEntry pI pF) w' (filter (\<lambda>(k, v). k \<noteq> key) es)" for w'
    by (rule Cons.IH) (simp add: Cons.prems)
  obtain k v where e: "e = (k, v)" by (cases e)
  show ?case
  proof (cases "k = key")
    case True
    then have "buildEntry pI pF w e = w" by (simp add: Cons.prems e)
    with True show ?thesis by (simp add: ih e)
  next
    case False
    then show ?thesis by (simp add: ih e)
  qed
qed

lemma restProps_filter:
  "restProps (filter P sp) = filter P (restProps sp)"
  by (simp add: restProps_def conj_commute)

lemma flagIsTrue_filter:
  "flag \<noteq> key \<Longrightarrow> flagIsTrue (filter (\<lambda>(k, v). k \<noteq> key) sp) flag = flagIsTrue sp flag"
  by (simp add: flagIsTrue_def map_of_filter_key[where P = "\<lambda>k. k \<noteq> key"])

lemma buildSchlagwoerter_filter_rating:
  "buildSchlagwoerter (filter (\<lambda>(k, v). k \<noteq> ''rating'') sp) = buildSchlagwoerter sp"
  by (simp add: buildSchlagwoerter_def pushed_def flagIsTrue_filter)

lemma buildSchlagwoerter_filter_preis:
  "buildSchlagwoerter (filter (\<lambda>(k, v). k \<noteq> ''preis'') sp) = buildSchlagwoerter sp"
  by (simp add: buildSchlagwoerter_def pushed_def flagIsTrue_filter)

lemma entry_value:
  assumes "distinct (map fst sp)" "map_of sp key = Some v" "e \<in> set sp" "fst e = key"
  shows "snd e = v"
  using assms by (metis map_of_is_SomeI option.inject prod.collapse)

lemma build_ignores_rating:
  assumes "distinct (map fst sp)" "map_of sp ''rating'' = Some v" "pI v = None"
  shows "build pI pF sp = build pI pF (filter (\<lambda>(k, v). k \<noteq> ''rating'') sp)"
proof -
  have skip: "buildEntry pI pF w e = w" if "e \<in> set (restProps sp)" "fst e = ''rating''" for e w
  proof -
    from that(1) have "e \<in> set sp" by (simp add: restProps_def)
    then have "snd e = v" using assms(1,2) that(2) by (metis entry_value)
    with that(2) assms(3) show ?thesis by (simp add: buildEntry_def Let_def)
  qed
  have "foldl (buildEntry pI pF) emptyWhere (restProps sp)
      = foldl (buildEntry pI pF) emptyWhere (filter (\<lambda>(k, v). k \<noteq> ''rating'') (restProps sp))"
    by (rule foldl_buildEntry_skip) (rule skip)
  then show ?thesis
    by (simp add: build_def restProps_filter buildSchlagwoerter_filter_rating)
qed

lemma build_ignores_preis:
  assumes "distinct (map fst sp)" "map_of sp ''preis'' = Some v" "pF v = None"
  shows "build pI pF sp = build pI pF (filter (\<lambda>(k, v). k \<noteq> ''preis'') sp)"
proof -
  have skip: "buildEntry pI pF w e = w" if "e \<in> set (restProps sp)" "fst e = ''preis''" for e w
  proof -
    from that(1) have "e \<in> set sp" by (simp add: restProps_def)
    then have "snd e = v" using assms(1,2) that(2) by (metis entry_value)
    with that(2) assms(3) show ?thesis by (simp add: buildEntry_def Let_def)
  qed
  have "foldl (buildEntry pI pF) emptyWhere (restProps sp)
      = foldl (buildEntry pI pF) emptyWhere (filter (\<lambda>(k, v). k \<noteq> ''preis'') (restProps sp))"
    by (rule foldl_buildEntry_skip) (rule skip)
  then show ?thesis
    by (simp add: build_def restProps_filter buildSchlagwoerter_filter_preis)
qed

text \<open>
  Claim C7. For an object (its keys are distinct): a \<open>rating\<close> whose value parses to \<open>n\<close> gives
  the condition \<^verbatim>\<open>rating: { gte: n }\<close>, a \<open>preis\<close> whose value parses to \<open>x\<close> gives
  \<^verbatim>\<open>preis: { lte: x }\<close>; when the value of one of them parses to \<^verbatim>\<open>NaN\<close>, the filter has no
  condition for it and is the filter of the object without that parameter.
\<close>

theorem build_rating_preis:
  assumes "distinct (map fst sp)"
  shows "(\<forall>v n. map_of sp ''rating'' = Some v \<and> pI v = Some n \<longrightarrow>
            rating_gte (build pI pF sp) = Some n) \<and>
         (\<forall>v x. map_of sp ''preis'' = Some v \<and> pF v = Some x \<longrightarrow>
            preis_lte (build pI pF sp) = Some x) \<and>
         (\<forall>v. map_of sp ''rating'' = Some v \<and> pI v = None \<longrightarrow>
            rating_gte (build pI pF sp) = None \<and>
            build pI pF sp = build pI pF (filter (\<lambda>(key, value). key \<noteq> ''rating'') sp)) \<and>
         (\<forall>v. map_of sp ''preis'' = Some v \<and> pF v = None \<longrightarrow>
            preis_lte (build pI pF sp) = None \<and>
            build pI pF sp = build pI pF (filter (\<lambda>(key, value). key \<noteq> ''preis'') sp))"
proof (intro conjI allI impI)
  fix v n assume "map_of sp ''rating'' = Some v \<and> pI v = Some n"
  then show "rating_gte (build pI pF sp) = Some n"
    by (simp add: build_rating_gte[OF assms])
next
  fix v x assume "map_of sp ''preis'' = Some v \<and> pF v = Some x"
  then show "preis_lte (build pI pF sp) = Some x"
    by (simp add: build_preis_lte[OF assms])
next
  fix v assume "map_of sp ''rating'' = Some v \<and> pI v = None"
  then show "rating_gte (build pI pF sp) = None"
    by (simp add: build_rating_gte[OF assms])
next
  fix v assume "map_of sp ''rating'' = Some v \<and> pI v = None"
  then show "build pI pF sp = build pI pF (filter (\<lambda>(key, value). key \<noteq> ''rating'') sp)"
    using build_ignores_rating[OF assms] by blast
next
  fix v assume "map_of sp ''preis'' = Some v \<and> pF v = None"
  then show "preis_lte (build pI pF sp) = None"
    by (simp add: build_preis_lte[OF assms])
next
  fix v assume "map_of sp ''preis'' = Some v \<and> pF v = None"
  then show "build pI pF sp = build pI pF (filter (\<lambda>(key, value). key \<noteq> ''preis'') sp)"
    using build_ignores_preis[OF assms] by blast
qed

text \<open>With decimal integers for both parsers: values that parse, and values that do not.\<close>

theorem build_rating_preis_witness:
  "rating_gte (build parseInt_radix10 parseInt_radix10
      [(''rating'', ''4''), (''preis'', ''35000''), (''suv'', ''true'')]) = Some 4 \<and>
   preis_lte (build parseInt_radix10 parseInt_radix10
      [(''rating'', ''4''), (''preis'', ''35000''), (''suv'', ''true'')]) = Some 35000 \<and>
   build parseInt_radix10 parseInt_radix10
      [(''rating'', ''vier''), (''preis'', ''35000''), (''suv'', ''true'')]
     = build parseInt_radix10 parseInt_radix10 [(''preis'', ''35000''), (''suv'', ''true'')] \<and>
   build parseInt_radix10 parseInt_radix10
      [(''rating'', ''4''), (''preis'', ''billig''), (''suv'', ''true'')]
     = build parseInt_radix10 parseInt_radix10 [(''rating'', ''4''), (''suv'', ''true'')]"
proof -
  have p: "parseInt_radix10 ''4'' = Some 4" "parseInt_radix10 ''35000'' = Some 35000"
    "parseInt_radix10 ''vier'' = None" "parseInt_radix10 ''billig'' = None"
    by (simp_all add: parseInt_radix10_def isWhiteSpace_def isDigit_def decimalValue_def
        digitValue_def)
  show ?thesis
    using build_rating_preis[of "[(''rating'', ''4''), (''preis'', ''35000''), (''suv'', ''true'')]"
        parseInt_radix10 parseInt_radix10]
      build_rating_preis[of "[(''rating'', ''vier''), (''preis'', ''35000''), (''suv'', ''true'')]"
        parseInt_radix10 parseInt_radix10]
      build_rating_preis[of "[(''rating'', ''4''), (''preis'', ''billig''), (''suv'', ''true'')]"
        parseInt_radix10 parseInt_radix10]
    by (simp add: p)
qed

section \<open>Properties of the search\<close>

lemma checkKeys_foldl:
  "foldl (\<lambda>validKeys key. if \<not> keyIsValid key then False else validKeys) b keys
     = (b \<and> list_all keyIsValid keys)"
  by (induction keys arbitrary: b) auto

lemma checkKeys_all: "checkKeys keys = list_all keyIsValid keys"
  by (simp add: checkKeys_def checkKeys_foldl)

lemma keyIsValid_vocabulary:
  "keyIsValid key \<longleftrightarrow> key \<in> set suchparameterNamen \<union> set tagNames"
  by (auto simp: keyIsValid_def tagNames_def)

lemma checkKeys_subset:
  "checkKeys keys \<longleftrightarrow> set keys \<subseteq> set suchparameterNamen \<union> set tagNames"
  by (auto simp: checkKeys_all list_all_iff keyIsValid_vocabulary)

lemma findAll_not_UngueltigeSuchparameter:
  "findAll p pg d \<noteq> Inl (NotFoundException UngueltigeSuchparameter)"
  by (simp add: findAll_def Let_def)

lemma find_autos_UngueltigeSuchparameter_iff:
  "find_autos p (Some sp) pg d = Inl (NotFoundException UngueltigeSuchparameter) \<longleftrightarrow>
     sp \<noteq> [] \<and> (\<not> set (map fst sp) \<subseteq> set suchparameterNamen \<union> set tagNames \<or> \<not> checkEnums sp)"
proof (cases "sp = []")
  case True
  then show ?thesis
    by (simp add: find_autos_def findAll_not_UngueltigeSuchparameter)
next
  case False
  have "checkKeys (map fst sp) \<longleftrightarrow> set (map fst sp) \<subseteq> set suchparameterNamen \<union> set tagNames"
    by (rule checkKeys_subset)
  with False show ?thesis
    by (simp add: find_autos_def Let_def)
qed

text \<open>
  Claim C3, as the code has it. The vocabulary of \<^verbatim>\<open>#checkKeys\<close> is \<open>suchparameterNamen\<close>
  (with \<open>rabatt\<close> and \<open>schlagwoerter\<close>, without the aliases \<open>lieferbar\<close> and \<open>datum\<close>) and the
  keyword flags. When every key is of that vocabulary and the value of \<open>art\<close>, if there is
  one, is a category, the search does not fail with the error of invalid search
  parameters; when a key is outside the vocabulary, it fails with that error.
\<close>

theorem find_autos_key_check:
  "(set (map fst sp) \<subseteq> set suchparameterNamen \<union> set tagNames \<and> checkEnums sp \<longrightarrow>
      find_autos p (Some sp) pg d \<noteq> Inl (NotFoundException UngueltigeSuchparameter)) \<and>
   (\<not> set (map fst sp) \<subseteq> set suchparameterNamen \<union> set tagNames \<longrightarrow>
      find_autos p (Some sp) pg d = Inl (NotFoundException UngueltigeSuchparameter))"
  unfolding find_autos_UngueltigeSuchparameter_iff by auto

text \<open>The definitions that evaluate a search on the sample database.\<close>

lemmas ex_find_defs = find_autos_def findAll_def Let_def checkKeys_all keyIsValid_def
  suchparameterNamen_def checkEnums_def build_def restProps_def tagNames_def buildEntry_def
  buildSchlagwoerter_def pushed_def flagIsTrue_def toLowerCase_def char_toLowerCase_def
  emptyWhere_def prisma_auto_findMany_def ex_platform_def ex_satisfies_def ex_pageable_def
  ex_db_def ex_auto_def ex_auto2_def withInclude_def createSlice_def defaultSchlagwoerter_def
  count_def parseInt_radix10_def isWhiteSpace_def isDigit_def decimalValue_def digitValue_def
  orElse_def

lemma ex_find_rating:
  "find_autos ex_platform (Some [(''rating'', ''4'')]) ex_pageable ex_db
     = Inr \<lparr>content = [ex_auto\<lparr>ausstattungen := None, schlagwoerter := Some []\<rparr>],
            totalElements = 2\<rparr>"
  by (simp add: ex_find_defs)

lemma ex_find_rabatt:
  "find_autos ex_platform (Some [(''rabatt'', ''0.1'')]) ex_pageable ex_db
     = Inr \<lparr>content = [ex_auto\<lparr>ausstattungen := None, schlagwoerter := Some []\<rparr>,
                       ex_auto2\<lparr>ausstattungen := None\<rparr>],
            totalElements = 2\<rparr>"
  by (simp add: ex_find_defs)

text \<open>
  On the sample database: a search by \<open>rating\<close>, and one with the unknown key \<open>farbe\<close>.
\<close>

theorem find_autos_key_check_witness:
  "find_autos ex_platform (Some [(''rating'', ''4'')]) ex_pageable ex_db
     \<noteq> Inl (NotFoundException UngueltigeSuchparameter) \<and>
   find_autos ex_platform (Some [(''rating'', ''4''), (''farbe'', ''rot'')]) ex_pageable ex_db
     = Inl (NotFoundException UngueltigeSuchparameter)"
proof -
  have a: "set (map fst [(''rating'', ''4'')]) \<subseteq> set suchparameterNamen \<union> set tagNames"
    by (simp add: suchparameterNamen_def)
  have b: "checkEnums [(''rating'', ''4'')]"
    by (simp add: checkEnums_def)
  have c: "\<not> set (map fst [(''rating'', ''4''), (''farbe'', ''rot'')])
             \<subseteq> set suchparameterNamen \<union> set tagNames"
    by (simp add: suchparameterNamen_def tagNames_def)
  show ?thesis
    using find_autos_key_check[of "[(''rating'', ''4'')]" ex_platform ex_pageable ex_db]
      find_autos_key_check[of "[(''rating'', ''4''), (''farbe'', ''rot'')]" ex_platform ex_pageable ex_db]
      a b c
    by blast
qed

text \<open>
  Claim C3 as stated fails three ways. The alias \<open>lieferbar\<close> is in the table of the
  specification and is rejected; \<open>art\<close> is in the table, and the value \<open>FOO\<close> is rejected
  with the same error; \<open>rabatt\<close> is in neither vocabulary of the specification, and the
  search succeeds.
\<close>

theorem find_autos_spec_vocabulary_counterexample:
  "''lieferbar'' \<in> set specComparisonParameters \<and>
   find_autos ex_platform (Some [(''lieferbar'', ''true'')]) ex_pageable ex_db
     = Inl (NotFoundException UngueltigeSuchparameter) \<and>
   ''art'' \<in> set specComparisonParameters \<and>
   find_autos ex_platform (Some [(''art'', ''FOO'')]) ex_pageable ex_db
     = Inl (NotFoundException UngueltigeSuchparameter) \<and>
   ''rabatt'' \<notin> set specComparisonParameters \<union> set tagNames \<and>
   \<not> isl (find_autos ex_platform (Some [(''rabatt'', ''0.1'')]) ex_pageable ex_db)"
proof -
  have "find_autos ex_platform (Some [(''lieferbar'', ''true'')]) ex_pageable ex_db
     = Inl (NotFoundException UngueltigeSuchparameter)"
    by (simp add: find_autos_def checkKeys_all keyIsValid_def suchparameterNamen_def)
  moreover have "find_autos ex_platform (Some [(''art'', ''FOO'')]) ex_pageable ex_db
     = Inl (NotFoundException UngueltigeSuchparameter)"
    by (simp add: find_autos_def checkKeys_all keyIsValid_def suchparameterNamen_def checkEnums_def)
  moreover have "\<not> isl (find_autos ex_platform (Some [(''rabatt'', ''0.1'')]) ex_pageable ex_db)"
    by (simp add: ex_find_rabatt)
  ultimately show ?thesis
    by (simp add: specComparisonParameters_def tagNames_def)
qed

text \<open>
  Claim C5. A search that succeeds returns, as \<open>totalElements\<close>, the number of all rows of
  the table, whatever the filter.
\<close>

theorem find_autos_totalElements:
  assumes "find_autos p sp pg d = Inr sl"
  shows "totalElements sl = count d \<and> count d = length (autos d)"
  using assms
  by (auto simp: find_autos_def findAll_def Let_def createSlice_def count_def
      split: option.splits if_splits)

text \<open>
  On the sample database: one of the two vehicles has a rating of 4 or more; the slice has
  one vehicle and \<open>totalElements\<close> is 2.
\<close>

theorem find_autos_totalElements_witness:
  "length (content (projr (find_autos ex_platform (Some [(''rating'', ''4'')]) ex_pageable ex_db))) = 1 \<and>
   totalElements (projr (find_autos ex_platform (Some [(''rating'', ''4'')]) ex_pageable ex_db)) = 2"
proof -
  have c: "count ex_db = 2" by (simp add: count_def ex_db_def)
  show ?thesis
    using find_autos_totalElements[OF ex_find_rating] by (simp add: ex_find_rating c)
qed

text \<open>
  Claim C8. When the page of a search with valid parameters is empty, the call fails with
  \<^verbatim>\<open>NotFoundException\<close> carrying the parameters and the page number; when the page of a
  listing without parameters is empty, it fails with \<^verbatim>\<open>NotFoundException\<close> carrying the
  page number; a slice that is returned has a vehicle in it; and every failure of the
  search is a \<^verbatim>\<open>NotFoundException\<close>.
\<close>

theorem find_autos_empty_page:
  "(\<forall>ps. sp = Some ps \<and> ps \<noteq> [] \<and> checkKeys (map fst ps) \<and> checkEnums ps \<and>
         prisma_auto_findMany p (Some (build (parseInt p) (parseFloat p) ps))
           (number pg * size' pg) (size' pg) d = [] \<longrightarrow>
         find_autos p sp pg d = Inl (NotFoundException (KeineAutosGefunden ps (number pg)))) \<and>
   ((sp = None \<or> sp = Some []) \<and>
      prisma_auto_findMany p None (number pg * size' pg) (size' pg) d = [] \<longrightarrow>
      find_autos p sp pg d = Inl (NotFoundException (UngueltigeSeite (number pg)))) \<and>
   (\<forall>sl. find_autos p sp pg d = Inr sl \<longrightarrow> content sl \<noteq> []) \<and>
   (\<forall>e. find_autos p sp pg d = Inl e \<longrightarrow> (\<exists>m. e = NotFoundException m))"
proof (intro conjI allI impI)
  fix ps
  assume "sp = Some ps \<and> ps \<noteq> [] \<and> checkKeys (map fst ps) \<and> checkEnums ps \<and>
         prisma_auto_findMany p (Some (build (parseInt p) (parseFloat p) ps))
           (number pg * size' pg) (size' pg) d = []"
  then show "find_autos p sp pg d = Inl (NotFoundException (KeineAutosGefunden ps (number pg)))"
    by (simp add: find_autos_def Let_def)
next
  assume "(sp = None \<or> sp = Some []) \<and>
      prisma_auto_findMany p None (number pg * size' pg) (size' pg) d = []"
  then show "find_autos p sp pg d = Inl (NotFoundException (UngueltigeSeite (number pg)))"
    by (auto simp: find_autos_def findAll_def Let_def)
next
  fix sl assume "find_autos p sp pg d = Inr sl"
  then show "content sl \<noteq> []"
    by (auto simp: find_autos_def findAll_def Let_def createSlice_def
        split: option.splits if_splits)
next
  fix e assume "find_autos p sp pg d = Inl e"
  then show "\<exists>m. e = NotFoundException m"
    by (auto simp: find_autos_def findAll_def Let_def split: option.splits if_splits)
qed

text \<open>
  On the sample database: no vehicle has the rating 5; there is no second page; the search
  by the rating 4 returns a slice.
\<close>

theorem find_autos_empty_page_witness:
  "find_autos ex_platform (Some [(''rating'', ''5'')]) ex_pageable ex_db
     = Inl (NotFoundException (KeineAutosGefunden [(''rating'', ''5'')] 0)) \<and>
   find_autos ex_platform None (ex_pageable\<lparr>number := 1\<rparr>) ex_db
     = Inl (NotFoundException (UngueltigeSeite 1)) \<and>
   content (projr (find_autos ex_platform (Some [(''rating'', ''4'')]) ex_pageable ex_db)) \<noteq> []"
proof -
  have k: "checkKeys (map fst [(''rating'', ''5'')])" "checkEnums [(''rating'', ''5'')]"
    by (simp_all add: checkKeys_all keyIsValid_def suchparameterNamen_def checkEnums_def)
  have e1: "prisma_auto_findMany ex_platform
      (Some (build (parseInt ex_platform) (parseFloat ex_platform) [(''rating'', ''5'')]))
      (number ex_pageable * size' ex_pageable) (size' ex_pageable) ex_db = []"
    by (simp add: ex_find_defs)
  have e2: "prisma_auto_findMany ex_platform None
      (number (ex_pageable\<lparr>number := 1\<rparr>) * size' (ex_pageable\<lparr>number := 1\<rparr>))
      (size' (ex_pageable\<lparr>number := 1\<rparr>)) ex_db = []"
    by (simp add: ex_find_defs)
  have n: "number ex_pageable = 0" by (simp add: ex_pageable_def)
  show ?thesis
    using find_autos_empty_page[of "Some [(''rating'', ''5'')]" ex_platform ex_pageable ex_db]
      find_autos_empty_page[of None ex_platform "ex_pageable\<lparr>number := 1\<rparr>" ex_db]
      find_autos_empty_page[of "Some [(''rating'', ''4'')]" ex_platform ex_pageable ex_db]
      k e1 e2 n ex_find_rating
    by simp
qed

lemma schlagwoerter_defaultSchlagwoerter:
  "schlagwoerter (defaultSchlagwoerter a) = Some (orElse (schlagwoerter a) [])"
  by (simp add: defaultSchlagwoerter_def orElse_def split: option.splits)

lemma schlagwoerter_withInclude: "schlagwoerter (withInclude m a) = schlagwoerter a"
  by (simp add: withInclude_def)

lemma findMany_rows:
  "\<exists>rows. set rows \<subseteq> set (autos d) \<and>
      prisma_auto_findMany p w skip tk d = map (withInclude False) rows"
proof -
  let ?rows = "take tk (drop skip (case w of None \<Rightarrow> autos d | Some x \<Rightarrow> filter (satisfies p x) (autos d)))"
  have "set ?rows \<subseteq> set (autos d)"
    by (cases w) (auto dest!: in_set_takeD in_set_dropD)
  then show ?thesis unfolding prisma_auto_findMany_def by blast
qed

lemma find_autos_content:
  assumes "find_autos p sp pg d = Inr sl"
  shows "\<exists>rows. set rows \<subseteq> set (autos d) \<and>
           content sl = map (defaultSchlagwoerter \<circ> withInclude False) rows"
proof -
  from assms obtain w where
    "content sl = map defaultSchlagwoerter
       (prisma_auto_findMany p w (number pg * size' pg) (size' pg) d)"
    by (auto simp: find_autos_def findAll_def Let_def createSlice_def
        split: option.splits if_splits)
  with findMany_rows[of d p w "number pg * size' pg" "size' pg"] show ?thesis
    by auto
qed

text \<open>
  Claim C10. The vehicle that \<^verbatim>\<open>findById\<close> returns has the keywords of the stored row, and
  the empty list when the row has none; every vehicle of a slice that the search returns
  has keywords that are not \<^verbatim>\<open>null\<close>: they are those of a stored row, or the empty list when
  that row has none.
\<close>

theorem read_schlagwoerter_not_null:
  "(\<forall>a. findById d i m = Inr a \<longrightarrow>
      (\<exists>a0. findUnique d i = Some a0 \<and>
            schlagwoerter a = Some (orElse (schlagwoerter a0) []))) \<and>
   (\<forall>sl. find_autos p sp pg d = Inr sl \<longrightarrow>
      (\<forall>a \<in> set (content sl). schlagwoerter a \<noteq> None) \<and>
      (\<exists>rows. set rows \<subseteq> set (autos d) \<and>
         map schlagwoerter (content sl) = map (\<lambda>r. Some (orElse (schlagwoerter r) [])) rows))"
proof (intro conjI allI impI)
  fix a assume "findById d i m = Inr a"
  then show "\<exists>a0. findUnique d i = Some a0 \<and> schlagwoerter a = Some (orElse (schlagwoerter a0) [])"
    by (auto simp: findById_def schlagwoerter_defaultSchlagwoerter schlagwoerter_withInclude
        split: option.splits)
next
  fix sl assume "find_autos p sp pg d = Inr sl"
  then obtain rows where rows: "set rows \<subseteq> set (autos d)"
      "content sl = map (defaultSchlagwoerter \<circ> withInclude False) rows"
    using find_autos_content by blast
  show "\<forall>a \<in> set (content sl). schlagwoerter a \<noteq> None"
    by (auto simp: rows(2) schlagwoerter_defaultSchlagwoerter)
  have "map schlagwoerter (content sl) = map (\<lambda>r. Some (orElse (schlagwoerter r) [])) rows"
    by (simp add: rows(2) schlagwoerter_defaultSchlagwoerter schlagwoerter_withInclude)
  with rows(1) show "\<exists>rows. set rows \<subseteq> set (autos d) \<and>
         map schlagwoerter (content sl) = map (\<lambda>r. Some (orElse (schlagwoerter r) [])) rows"
    by blast
qed

lemma ex_findById:
  "findById ex_db 1 False = Inr (ex_auto\<lparr>ausstattungen := None, schlagwoerter := Some []\<rparr>)"
  by (simp add: findById_def findUnique_def ex_db_def ex_auto_def withInclude_def
      defaultSchlagwoerter_def)

text \<open>
  On the sample database: the vehicle 1 is stored without keywords and is read with the
  empty list, by its id and in a slice.
\<close>

theorem read_schlagwoerter_not_null_witness:
  "schlagwoerter ex_auto = None \<and>
   schlagwoerter (projr (findById ex_db 1 False)) = Some [] \<and>
   map schlagwoerter
     (content (projr (find_autos ex_platform (Some [(''rabatt'', ''0.1'')]) ex_pageable ex_db)))
     = [Some [], Some [''SUV'', ''ALLRAD'']]"
proof -
  have u: "findUnique ex_db 1 = Some ex_auto"
    by (simp add: findUnique_def ex_db_def ex_auto_def)
  have s: "schlagwoerter ex_auto = None" by (simp add: ex_auto_def)
  have "schlagwoerter (projr (findById ex_db 1 False)) = Some []"
    using read_schlagwoerter_not_null[of ex_db 1 False ex_platform "Some [(''rabatt'', ''0.1'')]"
        ex_pageable]
    by (simp add: ex_findById u s orElse_def)
  moreover have "map schlagwoerter
     (content (projr (find_autos ex_platform (Some [(''rabatt'', ''0.1'')]) ex_pageable ex_db)))
     = [Some [], Some [''SUV'', ''ALLRAD'']]"
    by (simp add: ex_find_rabatt ex_auto2_def)
  ultimately show ?thesis using s by simp
qed

end
